theory Spec2Isabelle
  imports Main "HOL-Library.Word"
begin

section \<open>Data model of VULNERABLE\_CODE\_EXAMPLE.cc\<close>

text \<open>
  \<^verbatim>\<open>enum class ResourceType { kSafe, kPrivileged };\<close>
  A scoped enumeration without an enum-base has the underlying type \<^verbatim>\<open>int\<close>, and every
  value of the underlying type is a value of the enumeration: the cast
  \<^verbatim>\<open>(ResourceType)99\<close> of the driver is well defined. The type is therefore a 32-bit
  word with the two enumerators as the constants 0 and 1, not a two-element datatype. The
  program only compares values of the type for equality, so signedness plays no role.
\<close>

type_synonym ResourceType = "32 word"

definition kSafe :: ResourceType where
  "kSafe = 0"

definition kPrivileged :: ResourceType where
  "kPrivileged = 1"

text \<open>
  \<^verbatim>\<open>class ResourceHandle { public: ResourceType type; std::string name; ... };\<close>
\<close>

record ResourceHandle =
  type :: ResourceType
  name :: string

text \<open>
  The constructor \<^verbatim>\<open>ResourceHandle(ResourceType t, std::string n) : type(t), name(n) {}\<close>.
\<close>

definition mk_ResourceHandle :: "ResourceType \<Rightarrow> string \<Rightarrow> ResourceHandle" where
  "mk_ResourceHandle t n = \<lparr>type = t, name = n\<rparr>"

text \<open>
  \<^verbatim>\<open>std::cout\<close> is the only state the program touches. It is threaded explicitly as the
  characters written so far; \<^verbatim>\<open>std::endl\<close> writes a line feed.
\<close>

type_synonym ostream = string

definition endl :: string where
  "endl = [CHR 0x0A]"

text \<open>
  \<^verbatim>\<open>std::unique_ptr<ResourceHandle>\<close> may hold a null pointer: it is an option, and
  \<^verbatim>\<open>std::make_unique\<close> yields \<open>Some\<close>. Dereferencing a null pointer is the only
  way the driver could go wrong; it is an error value.
\<close>

type_synonym ResourceHandle_ptr = "ResourceHandle option"

datatype error = NullDereference

section \<open>The operations\<close>

text \<open>
  \<^verbatim>\<open>void Print()\<close>: one line with the name and, for every type other than
  \<^verbatim>\<open>kSafe\<close>, the word Privileged.
\<close>

definition Print :: "ResourceHandle \<Rightarrow> ostream \<Rightarrow> ostream" where
  "Print h out =
     out @ ''Resource Handle: '' @ [CHR 0x27] @ name h @ [CHR 0x27] @ '' (Type: ''
         @ (if type h = kSafe then ''Safe'' else ''Privileged'') @ '')'' @ endl"

text \<open>
  \<^verbatim>\<open>std::unique_ptr<ResourceHandle> GetResource(ResourceType requested_type,
                                                 ResourceType fallback_type)\<close>:
  the handler of the browser process. The result is the pointer and the output stream
  after the call.
\<close>

definition GetResource ::
  "ResourceType \<Rightarrow> ResourceType \<Rightarrow> ostream \<Rightarrow> ResourceHandle_ptr \<times> ostream" where
  "GetResource requested_type fallback_type out =
     (let out1 = out @ ''[Browser Process] Received request for resource.'' @ endl;
          is_resource_available = (requested_type = kSafe)
      in if is_resource_available then
           (let out2 = out1 @ ''[Browser Process] Requested resource is available. Granting.''
                            @ endl
            in (Some (mk_ResourceHandle requested_type ''safe_resource.tmp''), out2))
         else
           (let out2 = out1
                  @ ''[Browser Process] WARNING: Requested resource not available. Granting fallback.''
                  @ endl
            in (Some (mk_ResourceHandle fallback_type ''privileged_browser_process_handle''),
                out2)))"

text \<open>
  \<^verbatim>\<open>void SimulateCompromisedRenderer()\<close>: the compromised renderer. The first literal
  starts with a line feed. \<^verbatim>\<open>handle->Print()\<close> and \<^verbatim>\<open>handle->type\<close> dereference
  the pointer that \<^verbatim>\<open>GetResource\<close> returned.
\<close>

definition success_line :: string where
  "success_line =
     ''[Renderer Process] SUCCESS. Sandbox escape achieved. We now have a privileged handle.''"

definition SimulateCompromisedRenderer :: "ostream \<Rightarrow> error + ostream" where
  "SimulateCompromisedRenderer out =
     (let out1 = out @ [CHR 0x0A] @ ''[Renderer Process] Attacker has control.'' @ endl;
          out2 = out1 @ ''[Renderer Process] Crafting malicious IPC message...'' @ endl;
          malicious_request = (99 :: ResourceType);
          malicious_fallback = kPrivileged;
          out3 = out2
            @ ''[Renderer Process] Sending IPC to browser: request invalid type, but set fallback to Privileged.''
            @ endl
      in case GetResource malicious_request malicious_fallback out3 of
           (None, out4) \<Rightarrow> Inl NullDereference
         | (Some handle, out4) \<Rightarrow>
             (let out5 = out4 @ ''[Renderer Process] Received handle from browser!'' @ endl;
                  out6 = Print handle out5
              in if type handle = kPrivileged
                 then Inr (out6 @ success_line @ endl)
                 else Inr out6))"

text \<open>
  \<^verbatim>\<open>int main() { SimulateCompromisedRenderer(); return 0; }\<close>: the exit status and
  the output of the run.
\<close>

definition main :: "ostream \<Rightarrow> error + (32 word \<times> ostream)" where
  "main out =
     (case SimulateCompromisedRenderer out of
        Inl e \<Rightarrow> Inl e
      | Inr out1 \<Rightarrow> Inr (0, out1))"

section \<open>The corrected mode of the specification\<close>




section \<open>Facts about the two branches\<close>

lemma kSafe_neq_kPrivileged: "kSafe \<noteq> kPrivileged"
  by (simp add: kSafe_def kPrivileged_def)

lemma invalid_99_neq_kSafe: "(99 :: ResourceType) \<noteq> kSafe"
  by (simp add: kSafe_def)

lemma GetResource_available:
  "GetResource kSafe fallback_type out =
     (Some \<lparr>type = kSafe, name = ''safe_resource.tmp''\<rparr>,
      out @ ''[Browser Process] Received request for resource.'' @ endl
          @ ''[Browser Process] Requested resource is available. Granting.'' @ endl)"
  by (simp add: GetResource_def mk_ResourceHandle_def)

lemma GetResource_unavailable:
  assumes "requested_type \<noteq> kSafe"
  shows "GetResource requested_type fallback_type out =
     (Some \<lparr>type = fallback_type, name = ''privileged_browser_process_handle''\<rparr>,
      out @ ''[Browser Process] Received request for resource.'' @ endl
          @ ''[Browser Process] WARNING: Requested resource not available. Granting fallback.''
          @ endl)"
  using assms by (simp add: GetResource_def mk_ResourceHandle_def)

lemma GetResource_handle:
  "fst (GetResource requested_type fallback_type out) =
     Some (if requested_type = kSafe
           then \<lparr>type = kSafe, name = ''safe_resource.tmp''\<rparr>
           else \<lparr>type = fallback_type, name = ''privileged_browser_process_handle''\<rparr>)"
  by (simp add: GetResource_available GetResource_unavailable)

lemma Print_privileged:
  "Print \<lparr>type = kPrivileged, name = n\<rparr> out =
     out @ ''Resource Handle: '' @ [CHR 0x27] @ n @ [CHR 0x27] @ '' (Type: Privileged)'' @ endl"
  using kSafe_neq_kPrivileged by (simp add: Print_def)

lemma SimulateCompromisedRenderer_run:
  "SimulateCompromisedRenderer out =
     Inr (out @ [CHR 0x0A] @ ''[Renderer Process] Attacker has control.'' @ endl
       @ ''[Renderer Process] Crafting malicious IPC message...'' @ endl
       @ ''[Renderer Process] Sending IPC to browser: request invalid type, but set fallback to Privileged.''
       @ endl
       @ ''[Browser Process] Received request for resource.'' @ endl
       @ ''[Browser Process] WARNING: Requested resource not available. Granting fallback.''
       @ endl
       @ ''[Renderer Process] Received handle from browser!'' @ endl
       @ ''Resource Handle: '' @ [CHR 0x27] @ ''privileged_browser_process_handle'' @ [CHR 0x27]
       @ '' (Type: Privileged)'' @ endl
       @ success_line @ endl)"
  by (simp add: SimulateCompromisedRenderer_def GetResource_unavailable [OF invalid_99_neq_kSafe]
      Print_privileged)

section \<open>The claims\<close>

text \<open>
  C1. Whenever the fallback is \<^verbatim>\<open>kPrivileged\<close> and the requested type is anything but
  \<^verbatim>\<open>kSafe\<close>, out-of-range values such as 99 included, \<^verbatim>\<open>GetResource\<close> returns a
  handle of type \<^verbatim>\<open>kPrivileged\<close>: the renderer, which is never trusted, holds a
  privileged handle.
\<close>

theorem C1_flaw_grants_privileged:
  assumes "requested_type \<noteq> kSafe"
  shows "\<exists>h out'. GetResource requested_type kPrivileged out = (Some h, out')
           \<and> type h = kPrivileged"
  using assms by (simp add: GetResource_unavailable)

theorem C1_flaw_grants_privileged_witness:
  "(99 :: ResourceType) \<noteq> kSafe
   \<and> (\<exists>h out'. GetResource 99 kPrivileged [] = (Some h, out') \<and> type h = kPrivileged)"
  using C1_flaw_grants_privileged [OF invalid_99_neq_kSafe, of "[]"] invalid_99_neq_kSafe
  by simp

text \<open>
  C2. A request is available exactly when the requested type equals \<^verbatim>\<open>kSafe\<close>. For
  every requested type that is not available and every fallback whatsoever,
  \<^verbatim>\<open>GetResource\<close> returns a handle whose type is the fallback: nothing is checked
  about the fallback.
\<close>

theorem C2_unavailable_grants_fallback:
  assumes "requested_type \<noteq> kSafe"
  shows "\<exists>h out'. GetResource requested_type fallback_type out = (Some h, out')
           \<and> type h = fallback_type"
  using assms by (simp add: GetResource_unavailable)

theorem C2_unavailable_grants_fallback_witness:
  "(99 :: ResourceType) \<noteq> kSafe
   \<and> (\<exists>h out'. GetResource 99 kSafe [] = (Some h, out') \<and> type h = kSafe)
   \<and> (\<exists>h out'. GetResource kPrivileged 1234 [] = (Some h, out') \<and> type h = 1234)"
  using C2_unavailable_grants_fallback [OF invalid_99_neq_kSafe, of kSafe "[]"]
    C2_unavailable_grants_fallback [OF kSafe_neq_kPrivileged [symmetric], of 1234 "[]"]
    invalid_99_neq_kSafe
  by simp

text \<open>
  C3. When the requested type is \<^verbatim>\<open>kSafe\<close>, \<^verbatim>\<open>GetResource\<close> returns a handle of
  type \<^verbatim>\<open>kSafe\<close> for every fallback, \<^verbatim>\<open>kPrivileged\<close> included; two different
  fallbacks give the same handle.
\<close>

theorem C3_safe_request_grants_safe:
  "(\<exists>h out'. GetResource kSafe fallback_type out = (Some h, out') \<and> type h = kSafe)
   \<and> fst (GetResource kSafe fallback_type out) = fst (GetResource kSafe fallback_type' out)"
  by (simp add: GetResource_available)

text \<open>
  C5. \<^verbatim>\<open>GetResource\<close> has no error outcome: for every pair of arguments, values outside
  the enumeration included, and whatever has been printed before, it returns a non-null
  pointer to a handle.
\<close>

theorem C5_GetResource_never_fails:
  "\<exists>h out'. GetResource requested_type fallback_type out = (Some h, out')"
  by (cases "requested_type = kSafe") (simp_all add: GetResource_available GetResource_unavailable)

text \<open>
  C6. The type of the handle that \<^verbatim>\<open>GetResource\<close> returns is a function of the two
  arguments alone: two calls with the same arguments return handles of the same type,
  whatever the state of the output stream at either call, in particular when the second
  call follows the first.
\<close>

theorem C6_GetResource_kind_deterministic:
  "map_option type (fst (GetResource requested_type fallback_type out1))
     = map_option type (fst (GetResource requested_type fallback_type out2))
   \<and> map_option type
        (fst (GetResource requested_type fallback_type
               (snd (GetResource requested_type fallback_type out1))))
     = map_option type (fst (GetResource requested_type fallback_type out1))"
  by (simp add: GetResource_handle)

text \<open>
  C7. \<^verbatim>\<open>main\<close> runs \<^verbatim>\<open>SimulateCompromisedRenderer\<close> once and returns the exit status 0
  on every execution: the run never fails, its status is 0, and the output it leaves is
  the output of one run of \<^verbatim>\<open>SimulateCompromisedRenderer\<close> on the stream that
  \<^verbatim>\<open>main\<close> started with.
\<close>

theorem C7_main_exit_status_zero:
  "\<exists>out'. SimulateCompromisedRenderer out = Inr out' \<and> main out = Inr (0, out')"
  by (simp add: main_def SimulateCompromisedRenderer_run)

text \<open>
  C8. The name of the handle that \<^verbatim>\<open>GetResource\<close> returns is a constant chosen by the
  branch: \<^verbatim>\<open>safe_resource.tmp\<close> when the requested type is \<^verbatim>\<open>kSafe\<close> and
  \<^verbatim>\<open>privileged_browser_process_handle\<close> otherwise. Two calls with the same arguments
  return handles equal in type and in name, whatever the state of the output stream.
\<close>

theorem C8_GetResource_name_by_branch:
  "(\<exists>h out'. GetResource requested_type fallback_type out = (Some h, out')
      \<and> name h = (if requested_type = kSafe then ''safe_resource.tmp''
                   else ''privileged_browser_process_handle''))
   \<and> fst (GetResource requested_type fallback_type out)
       = fst (GetResource requested_type fallback_type out2)"
  by (cases "requested_type = kSafe") (simp_all add: GetResource_available GetResource_unavailable)

text \<open>
  C9. The type of the handle that \<^verbatim>\<open>GetResource\<close> returns is one of its two arguments;
  so the handle is of type \<^verbatim>\<open>kPrivileged\<close> only if the caller passed \<^verbatim>\<open>kPrivileged\<close>
  as the requested type or as the fallback.
\<close>

theorem C9_GetResource_kind_is_an_argument:
  "\<exists>h out'. GetResource requested_type fallback_type out = (Some h, out')
     \<and> (type h = requested_type \<or> type h = fallback_type)
     \<and> (type h = kPrivileged \<longrightarrow>
          requested_type = kPrivileged \<or> fallback_type = kPrivileged)"
  by (cases "requested_type = kSafe")
    (simp_all add: GetResource_available GetResource_unavailable kSafe_neq_kPrivileged)

theorem C9_GetResource_kind_is_an_argument_witness:
  "\<exists>h out'. GetResource 99 kPrivileged [] = (Some h, out')
     \<and> type h = kPrivileged
     \<and> ((99 :: ResourceType) = kPrivileged \<or> kPrivileged = kPrivileged)"
  using C9_GetResource_kind_is_an_argument [of 99 kPrivileged "[]"]
  by (simp add: GetResource_unavailable [OF invalid_99_neq_kSafe])

text \<open>
  C10. The call \<^verbatim>\<open>GetResource((ResourceType)99, kPrivileged)\<close> that
  \<^verbatim>\<open>SimulateCompromisedRenderer\<close> makes returns a handle of type \<^verbatim>\<open>kPrivileged\<close>,
  whatever has been printed before, and every run of the driver takes the branch that
  prints the success line: the run does not fail, and the line closes its output.
\<close>

theorem C10_driver_success_branch:
  "(\<exists>h out'. GetResource 99 kPrivileged out0 = (Some h, out') \<and> type h = kPrivileged)
   \<and> SimulateCompromisedRenderer out =
     Inr (out @ [CHR 0x0A] @ ''[Renderer Process] Attacker has control.'' @ endl
       @ ''[Renderer Process] Crafting malicious IPC message...'' @ endl
       @ ''[Renderer Process] Sending IPC to browser: request invalid type, but set fallback to Privileged.''
       @ endl
       @ ''[Browser Process] Received request for resource.'' @ endl
       @ ''[Browser Process] WARNING: Requested resource not available. Granting fallback.''
       @ endl
       @ ''[Renderer Process] Received handle from browser!'' @ endl
       @ ''Resource Handle: '' @ [CHR 0x27] @ ''privileged_browser_process_handle'' @ [CHR 0x27]
       @ '' (Type: Privileged)'' @ endl
       @ success_line @ endl)"
  by (simp add: SimulateCompromisedRenderer_run GetResource_unavailable [OF invalid_99_neq_kSafe])



end
